theory Spec2Isabelle
  imports Main
begin

section \<open>Python values, strings and dictionaries\<close>

text \<open>
  A Python \<open>str\<close> is a sequence of Unicode code points, and \<open>len\<close> and slicing count
  code points. It is modelled as a list of natural numbers; \<open>str\<close> turns a literal of
  the source into that representation.
\<close>

type_synonym pystr = "nat list"

definition str :: "string \<Rightarrow> pystr" where
  "str s = map of_char s"

text \<open>
  The values that occur in request bodies, event payloads and stored documents.
  \<open>VTime t\<close> is a \<open>datetime\<close> object (microseconds since the epoch); \<open>VIso t\<close> is the
  string \<open>t.isoformat()\<close>, kept symbolic because \<open>isoformat\<close> is injective on the
  timezone-aware values the server creates.
\<close>

datatype val =
    VNone
  | VBool bool
  | VInt int
  | VStr pystr
  | VTime int
  | VIso int
  | VList "val list"

text \<open>Python truthiness, as used by \<open>if conversation_id:\<close>.\<close>

fun truthy :: "val \<Rightarrow> bool" where
  "truthy VNone = False"
| "truthy (VBool b) = b"
| "truthy (VInt i) = (i \<noteq> 0)"
| "truthy (VStr s) = (s \<noteq> [])"
| "truthy (VTime t) = True"
| "truthy (VIso t) = True"
| "truthy (VList xs) = (xs \<noteq> [])"

text \<open>A \<open>dict\<close> with string keys, in insertion order.\<close>

type_synonym dict = "(string \<times> val) list"

definition dict_get :: "dict \<Rightarrow> string \<Rightarrow> val" where
  \<comment> \<open>\<open>d.get(k)\<close>: \<open>None\<close> when the key is missing\<close>
  "dict_get d k = (case map_of d k of None \<Rightarrow> VNone | Some v \<Rightarrow> v)"

fun dict_set :: "string \<Rightarrow> val \<Rightarrow> dict \<Rightarrow> dict" where
  \<comment> \<open>\<open>d[k] = v\<close>: replaces in place, or appends a new key\<close>
  "dict_set k v [] = [(k, v)]"
| "dict_set k v ((k', v') # d) =
     (if k' = k then (k, v) # d else (k', v') # dict_set k v d)"

fun isoformat_if_datetime :: "val \<Rightarrow> val" where
  "isoformat_if_datetime (VTime t) = VIso t"
| "isoformat_if_datetime v = v"

definition prepare_for_mongo :: "dict \<Rightarrow> dict" where
  "prepare_for_mongo data = map (\<lambda>(key, v). (key, isoformat_if_datetime v)) data"

section \<open>The models\<close>

record user_create =
  username :: pystr
  email :: pystr
  avatar_url :: "pystr option"

record user = user_create +
  id_user :: pystr
  status :: pystr
  created_at_user :: int

record message_create =
  content :: pystr
  sender_id :: pystr
  sender_username :: pystr
  conversation_id :: pystr
  message_type :: pystr

record message = message_create +
  id_message :: pystr
  timestamp :: int

record conversation_create =
  name :: pystr
  participants :: "pystr list"

record conversation = conversation_create +
  id_conversation :: pystr
  created_at :: int
  last_message :: "pystr option"
  last_activity :: int

definition opt_val :: "pystr option \<Rightarrow> val" where
  "opt_val x = (case x of None \<Rightarrow> VNone | Some s \<Rightarrow> VStr s)"

text \<open>\<open>.dict()\<close> of each model, in the order the class declares its fields.\<close>

definition user_to_dict :: "user \<Rightarrow> dict" where
  "user_to_dict u =
     [(''id'', VStr (id_user u)),
      (''username'', VStr (username u)),
      (''email'', VStr (email u)),
      (''avatar_url'', opt_val (avatar_url u)),
      (''status'', VStr (status u)),
      (''created_at'', VTime (created_at_user u))]"

definition message_to_dict :: "message \<Rightarrow> dict" where
  "message_to_dict m =
     [(''id'', VStr (id_message m)),
      (''sender_id'', VStr (sender_id m)),
      (''sender_username'', VStr (sender_username m)),
      (''content'', VStr (content m)),
      (''message_type'', VStr (message_type m)),
      (''timestamp'', VTime (timestamp m)),
      (''conversation_id'', VStr (conversation_id m))]"

definition conversation_to_dict :: "conversation \<Rightarrow> dict" where
  "conversation_to_dict c =
     [(''id'', VStr (id_conversation c)),
      (''name'', VStr (name c)),
      (''participants'', VList (map VStr (participants c))),
      (''created_at'', VTime (created_at c)),
      (''last_message'', opt_val (last_message c)),
      (''last_activity'', VTime (last_activity c))]"

section \<open>The collaborators: document store, push channel, clock, AI service\<close>

text \<open>
  What a handler cannot decide by itself is an input of the model: the identifier
  \<open>uuid.uuid4()\<close> returns, the two readings of \<open>datetime.now\<close> a handler makes (in
  program order), the text the AI service returns (\<open>None\<close> when \<open>get_ai_chat\<close> or
  \<open>send_message\<close> raises), and whether the store's insert, the store's update and the
  push channel's emit return or raise. A handler runs from its first statement to its
  last without another handler in between: the interleaving of coroutines at an
  \<open>await\<close> is not modelled.
\<close>

record env =
  uuid4 :: pystr
  now1 :: int
  now2 :: int
  ai_reply :: "pystr option"
  insert_ok :: bool
  update_ok :: bool
  emit_ok :: bool

datatype exn = InsertError | UpdateError | EmitError | AIError

text \<open>One call of \<open>sio.emit\<close> that returned.\<close>

record emission =
  event :: string
  payload :: dict
  room :: val
  skip_sid :: "pystr option"

text \<open>
  The state: the three collections of the database, the room membership the push
  channel keeps (room name to session ids; the room \<open>None\<close> holds every connected
  session and each session is alone in the room called by its own id), the log of
  emits, and what each session has been sent.
\<close>

record state =
  users :: "dict list"
  conversations :: "dict list"
  messages :: "dict list"
  rooms :: "val \<Rightarrow> pystr set"
  emitted :: "emission list"
  inbox :: "pystr \<Rightarrow> (string \<times> dict) list"

definition init_state :: state where
  "init_state = \<lparr>users = [], conversations = [], messages = [],
     rooms = (\<lambda>r. {}), emitted = [], inbox = (\<lambda>s. [])\<rparr>"

subsection \<open>Document store\<close>

definition matches :: "dict \<Rightarrow> dict \<Rightarrow> bool" where
  \<comment> \<open>a filter of equalities such as \<open>{"id": x}\<close>\<close>
  "matches flt d = list_all (\<lambda>(k, v). map_of d k = Some v) flt"

definition insert_one :: "dict list \<Rightarrow> dict \<Rightarrow> dict list" where
  \<comment> \<open>the driver's own \<open>_id\<close> field, which no handler reads, is left out\<close>
  "insert_one coll d = coll @ [d]"

definition apply_set :: "dict \<Rightarrow> dict \<Rightarrow> dict" where
  \<comment> \<open>the \<open>$set\<close> operator\<close>
  "apply_set upd d = fold (\<lambda>(k, v). dict_set k v) upd d"

fun update_one :: "dict list \<Rightarrow> dict \<Rightarrow> dict \<Rightarrow> dict list" where
  \<comment> \<open>changes the first matching document; no match, no change (no upsert)\<close>
  "update_one [] flt upd = []"
| "update_one (d # ds) flt upd =
     (if matches flt d then apply_set upd d # ds else d # update_one ds flt upd)"

definition find_one :: "dict list \<Rightarrow> dict \<Rightarrow> dict option" where
  "find_one coll flt = find (matches flt) coll"

subsection \<open>Push channel\<close>

text \<open>
  \<open>sio.emit(event, data, room=r, skip_sid=s)\<close> delivers to the sessions in room \<open>r\<close>
  other than \<open>s\<close>; without \<open>room\<close> it addresses the room \<open>None\<close>, that is every
  connected session. An emit that raises is taken to deliver nothing.
\<close>

definition recipients :: "state \<Rightarrow> val \<Rightarrow> pystr option \<Rightarrow> pystr set" where
  "recipients st r skip = {s \<in> rooms st r. Some s \<noteq> skip}"

definition emit :: "bool \<Rightarrow> string \<Rightarrow> dict \<Rightarrow> val \<Rightarrow> pystr option \<Rightarrow> state \<Rightarrow> exn + state" where
  "emit ok ev data r skip st =
     (if \<not> ok then Inl EmitError
      else Inr (st\<lparr>emitted := emitted st @ [\<lparr>event = ev, payload = data, room = r, skip_sid = skip\<rparr>],
                   inbox := (\<lambda>s. if s \<in> recipients st r skip
                                  then inbox st s @ [(ev, data)] else inbox st s)\<rparr>))"

definition enter_room :: "pystr \<Rightarrow> val \<Rightarrow> state \<Rightarrow> state" where
  "enter_room sid r st = st\<lparr>rooms := (rooms st)(r := insert sid (rooms st r))\<rparr>"

definition leave_room :: "pystr \<Rightarrow> val \<Rightarrow> state \<Rightarrow> state" where
  "leave_room sid r st = st\<lparr>rooms := (rooms st)(r := rooms st r - {sid})\<rparr>"

section \<open>Request handlers\<close>

definition create_user :: "env \<Rightarrow> user_create \<Rightarrow> state \<Rightarrow> (exn + user) \<times> state" where
  "create_user e user_data st =
     (let u = \<lparr>username = username user_data, email = email user_data,
                avatar_url = avatar_url user_data,
                id_user = uuid4 e, status = str ''offline'', created_at_user = now1 e\<rparr>;
          user_dict = prepare_for_mongo (user_to_dict u)
      in if \<not> insert_ok e then (Inl InsertError, st)
         else (Inr u, st\<lparr>users := insert_one (users st) user_dict\<rparr>))"

definition update_user_status :: "env \<Rightarrow> pystr \<Rightarrow> pystr \<Rightarrow> state \<Rightarrow> (exn + dict) \<times> state" where
  "update_user_status e user_id new_status st =
     (if \<not> update_ok e then (Inl UpdateError, st)
      else let st1 = st\<lparr>users := update_one (users st) [(''id'', VStr user_id)]
                                     [(''status'', VStr new_status)]\<rparr>
           in case emit (emit_ok e) ''user_status_changed''
                     [(''user_id'', VStr user_id), (''status'', VStr new_status)] VNone None st1 of
                Inl x \<Rightarrow> (Inl x, st1)
              | Inr st2 \<Rightarrow> (Inr [(''success'', VBool True)], st2))"

definition create_conversation :: "env \<Rightarrow> conversation_create \<Rightarrow> state \<Rightarrow> (exn + conversation) \<times> state" where
  "create_conversation e conv_data st =
     (let c = \<lparr>name = name conv_data, participants = participants conv_data,
                id_conversation = uuid4 e, created_at = now1 e,
                last_message = None, last_activity = now2 e\<rparr>;
          conv_dict = prepare_for_mongo (conversation_to_dict c)
      in if \<not> insert_ok e then (Inl InsertError, st)
         else (Inr c, st\<lparr>conversations := insert_one (conversations st) conv_dict\<rparr>))"

definition preview :: "pystr \<Rightarrow> pystr" where
  \<comment> \<open>\<open>content[:50] + "..." if len(content) > 50 else content\<close>\<close>
  "preview c = (if length c > 50 then take 50 c @ str ''...'' else c)"

definition Message :: "env \<Rightarrow> message_create \<Rightarrow> message" where
  \<comment> \<open>the constructor: \<open>id\<close> and \<open>timestamp\<close> come from their default factories\<close>
  "Message e kw =
     \<lparr>content = content kw, sender_id = sender_id kw,
      sender_username = sender_username kw,
      conversation_id = conversation_id kw,
      message_type = message_type kw,
      id_message = uuid4 e, timestamp = now1 e\<rparr>"

definition create_message :: "env \<Rightarrow> message_create \<Rightarrow> state \<Rightarrow> (exn + message) \<times> state" where
  "create_message e msg_data st =
     (let m = Message e msg_data;
          msg_dict = prepare_for_mongo (message_to_dict m)
      in if \<not> insert_ok e then (Inl InsertError, st)
         else let st1 = st\<lparr>messages := insert_one (messages st) msg_dict\<rparr>
              in if \<not> update_ok e then (Inl UpdateError, st1)
                 else let st2 = st1\<lparr>conversations :=
                                   update_one (conversations st1)
                                     [(''id'', VStr (conversation_id msg_data))]
                                     [(''last_message'', VStr (preview (content msg_data))),
                                      (''last_activity'', VIso (now2 e))]\<rparr>
                      in case emit (emit_ok e) ''new_message'' (message_to_dict m)
                                (VStr (conversation_id msg_data)) None st2 of
                           Inl x \<Rightarrow> (Inl x, st2)
                         | Inr st3 \<Rightarrow> (Inr m, st3))"

text \<open>
  The body of the \<open>try\<close> block of \<open>ai_chat_response\<close>, then the handler, whose
  \<open>except Exception\<close> turns every exception of the body into a returned dictionary.
\<close>

datatype response = RMessage message | RDict dict

definition ai_chat_try :: "env \<Rightarrow> message_create \<Rightarrow> state \<Rightarrow> (exn + message) \<times> state" where
  "ai_chat_try e msg_data st =
     (case ai_reply e of
        None \<Rightarrow> (Inl AIError, st)
      | Some ai_response \<Rightarrow>
          let ai_msg = Message e
                         \<lparr>content = ai_response, sender_id = str ''ai-assistant'',
                          sender_username = str ''AI Assistant'',
                          conversation_id = conversation_id msg_data,
                          message_type = str ''ai_response''\<rparr>;
              ai_msg_dict = prepare_for_mongo (message_to_dict ai_msg)
          in if \<not> insert_ok e then (Inl InsertError, st)
             else let st1 = st\<lparr>messages := insert_one (messages st) ai_msg_dict\<rparr>
                  in if \<not> update_ok e then (Inl UpdateError, st1)
                     else let st2 = st1\<lparr>conversations :=
                                       update_one (conversations st1)
                                         [(''id'', VStr (conversation_id msg_data))]
                                         [(''last_message'', VStr (str ''AI: '' @ preview ai_response)),
                                          (''last_activity'', VIso (now2 e))]\<rparr>
                          in (case emit (emit_ok e) ''new_message'' (message_to_dict ai_msg)
                                     (VStr (conversation_id msg_data)) None st2 of
                                Inl x \<Rightarrow> (Inl x, st2)
                              | Inr st3 \<Rightarrow> (Inr ai_msg, st3)))"

definition ai_chat_response :: "env \<Rightarrow> message_create \<Rightarrow> state \<Rightarrow> (exn + response) \<times> state" where
  "ai_chat_response e msg_data st =
     (case ai_chat_try e msg_data st of
        (Inr ai_msg, st') \<Rightarrow> (Inr (RMessage ai_msg), st')
      | (Inl x, st') \<Rightarrow> (Inr (RDict [(''error'', VStr (str ''AI response failed''))]), st'))"

section \<open>Push-channel event handlers\<close>

definition connect :: "pystr \<Rightarrow> state \<Rightarrow> state" where
  \<comment> \<open>the handler only prints; the channel registers the session\<close>
  "connect sid st = enter_room sid (VStr sid) (enter_room sid VNone st)"

definition disconnect :: "pystr \<Rightarrow> state \<Rightarrow> state" where
  \<comment> \<open>the handler only prints; the channel drops the session from every room\<close>
  "disconnect sid st = st\<lparr>rooms := (\<lambda>r. rooms st r - {sid})\<rparr>"

definition join_conversation :: "bool \<Rightarrow> pystr \<Rightarrow> dict \<Rightarrow> state \<Rightarrow> exn + state" where
  "join_conversation ok sid data st =
     (let cid = dict_get data ''conversation_id''
      in if truthy cid
         then emit ok ''joined_conversation'' [(''conversation_id'', cid)] (VStr sid) None
                (enter_room sid cid st)
         else Inr st)"

definition leave_conversation :: "pystr \<Rightarrow> dict \<Rightarrow> state \<Rightarrow> state" where
  "leave_conversation sid data st =
     (let cid = dict_get data ''conversation_id''
      in if truthy cid then leave_room sid cid st else st)"

definition typing_start :: "bool \<Rightarrow> pystr \<Rightarrow> dict \<Rightarrow> state \<Rightarrow> exn + state" where
  "typing_start ok sid data st =
     (let cid = dict_get data ''conversation_id'';
          uid = dict_get data ''user_id'';
          uname = dict_get data ''username''
      in if truthy cid
         then emit ok ''user_typing''
                [(''user_id'', uid), (''username'', uname), (''typing'', VBool True)]
                cid (Some sid) st
         else Inr st)"

definition typing_stop :: "bool \<Rightarrow> pystr \<Rightarrow> dict \<Rightarrow> state \<Rightarrow> exn + state" where
  "typing_stop ok sid data st =
     (let cid = dict_get data ''conversation_id'';
          uid = dict_get data ''user_id''
      in if truthy cid
         then emit ok ''user_typing'' [(''user_id'', uid), (''typing'', VBool False)]
                cid (Some sid) st
         else Inr st)"

section \<open>Observations on the state\<close>

definition conversation_field :: "state \<Rightarrow> pystr \<Rightarrow> string \<Rightarrow> val option" where
  \<comment> \<open>field \<open>k\<close> of the conversation a query by id returns, if there is one\<close>
  "conversation_field st cid k =
     (case find_one (conversations st) [(''id'', VStr cid)] of
        None \<Rightarrow> None
      | Some d \<Rightarrow> Some (dict_get d k))"

definition activity :: "state \<Rightarrow> pystr \<Rightarrow> int option" where
  \<comment> \<open>the instant stored in \<open>last_activity\<close>\<close>
  "activity st cid =
     (case conversation_field st cid ''last_activity'' of
        Some (VIso t) \<Rightarrow> Some t
      | _ \<Rightarrow> None)"

text \<open>A sequence of submissions, one after the other, each with its own inputs.\<close>

fun submit_all :: "state \<Rightarrow> (env \<times> message_create) list \<Rightarrow> state" where
  "submit_all st [] = st"
| "submit_all st ((e, md) # xs) = submit_all (snd (create_message e md st)) xs"

definition returned :: "exn + 'a \<Rightarrow> bool" where
  \<comment> \<open>the handler returned a value; it did not raise\<close>
  "returned r = (case r of Inl x \<Rightarrow> False | Inr y \<Rightarrow> True)"

fun all_accepted :: "state \<Rightarrow> (env \<times> message_create) list \<Rightarrow> bool" where
  "all_accepted st [] = True"
| "all_accepted st ((e, md) # xs) =
     (returned (fst (create_message e md st)) \<and> all_accepted (snd (create_message e md st)) xs)"

definition clock_readings :: "(env \<times> message_create) list \<Rightarrow> int list" where
  "clock_readings xs = concat (map (\<lambda>(e, md). [now1 e, now2 e]) xs)"

definition update_times :: "pystr \<Rightarrow> (env \<times> message_create) list \<Rightarrow> int list" where
  \<comment> \<open>the readings used for \<open>last_activity\<close> by the submissions to conversation \<open>c\<close>\<close>
  "update_times c xs = map (\<lambda>(e, md). now2 e) (filter (\<lambda>(e, md). conversation_id md = c) xs)"

definition ai_draft :: "pystr \<Rightarrow> message_create \<Rightarrow> message_create" where
  \<comment> \<open>the fields \<open>ai_chat_response\<close> passes to the constructor for the reply \<open>r\<close>\<close>
  "ai_draft r msg_data =
     \<lparr>content = r, sender_id = str ''ai-assistant'',
      sender_username = str ''AI Assistant'',
      conversation_id = conversation_id msg_data,
      message_type = str ''ai_response''\<rparr>"

definition ai_failed :: response where
  "ai_failed = RDict [(''error'', VStr (str ''AI response failed''))]"

section \<open>Concrete inputs\<close>

definition env_ok :: env where
  "env_ok = \<lparr>uuid4 = str ''m1'', now1 = 10, now2 = 20, ai_reply = Some (str ''hi''),
              insert_ok = True, update_ok = True, emit_ok = True\<rparr>"

definition env_conv :: env where
  "env_conv = \<lparr>uuid4 = str ''c1'', now1 = 1, now2 = 2, ai_reply = None,
                insert_ok = True, update_ok = True, emit_ok = True\<rparr>"

definition msg_hello :: message_create where
  "msg_hello = \<lparr>content = str ''hello'', sender_id = str ''u1'', sender_username = str ''ann'',
                 conversation_id = str ''c1'', message_type = str ''text''\<rparr>"

definition state_c1 :: state where
  \<comment> \<open>one conversation, created through the handler, and two sessions joined to its room\<close>
  "state_c1 =
     enter_room (str ''s2'') (VStr (str ''c1''))
       (enter_room (str ''s1'') (VStr (str ''c1''))
          (connect (str ''s2'') (connect (str ''s1'')
             (snd (create_conversation env_conv
                     \<lparr>name = str ''general'', participants = [str ''u1'']\<rparr> init_state)))))"

definition msg_long :: message_create where
  "msg_long = \<lparr>content = str ''The quick brown fox jumps over the lazy dog, twice over.'',
                sender_id = str ''u1'', sender_username = str ''ann'',
                conversation_id = str ''c1'', message_type = str ''text''\<rparr>"

definition msg_orphan :: message_create where
  "msg_orphan = \<lparr>content = str ''hello'', sender_id = str ''u1'', sender_username = str ''ann'',
                  conversation_id = str ''nope'', message_type = str ''text''\<rparr>"

definition typing_data :: dict where
  "typing_data = [(''conversation_id'', VStr (str ''c1'')), (''user_id'', VStr (str ''u1'')),
                  (''username'', VStr (str ''ann''))]"

definition env_later :: env where
  "env_later = \<lparr>uuid4 = str ''m2'', now1 = 30, now2 = 40, ai_reply = None,
                 insert_ok = True, update_ok = True, emit_ok = True\<rparr>"

definition two_submissions :: "(env \<times> message_create) list" where
  "two_submissions = [(env_ok, msg_hello), (env_later, msg_long)]"

section \<open>Basic facts\<close>

lemma str_eq_iff: "str a = str b \<longleftrightarrow> a = b"
  unfolding str_def by (simp add: inj_map_eq_map inj_on_def)

lemma str_append: "str a @ str b = str (a @ b)" by (simp add: str_def)

lemma length_str: "length (str s) = length s" by (simp add: str_def)

lemma take_str: "take n (str s) = str (take n s)" by (simp add: str_def take_map)

lemma map_of_dict_set: "map_of (dict_set k v d) k' = (if k' = k then Some v else map_of d k')"
  by (induction d) auto

lemma returned_simps: "returned (Inl x) = False" "returned (Inr y) = True"
  by (simp_all add: returned_def)

lemma create_message_insert_fails:
  "\<not> insert_ok e \<Longrightarrow> create_message e md st = (Inl InsertError, st)"
  by (simp add: create_message_def Let_def)

lemma create_message_update_fails:
  "insert_ok e \<Longrightarrow> \<not> update_ok e \<Longrightarrow>
   create_message e md st =
     (Inl UpdateError,
      st\<lparr>messages := messages st @ [prepare_for_mongo (message_to_dict (Message e md))]\<rparr>)"
  by (simp add: create_message_def Let_def insert_one_def)

lemma create_message_emit_fails:
  "insert_ok e \<Longrightarrow> update_ok e \<Longrightarrow> \<not> emit_ok e \<Longrightarrow>
   create_message e md st =
     (Inl EmitError,
      st\<lparr>messages := messages st @ [prepare_for_mongo (message_to_dict (Message e md))],
         conversations := update_one (conversations st) [(''id'', VStr (conversation_id md))]
            [(''last_message'', VStr (preview (content md))), (''last_activity'', VIso (now2 e))]\<rparr>)"
  by (simp add: create_message_def Let_def insert_one_def emit_def)

lemma create_message_accepted:
  "insert_ok e \<Longrightarrow> update_ok e \<Longrightarrow> emit_ok e \<Longrightarrow>
   create_message e md st =
     (Inr (Message e md),
      st\<lparr>messages := messages st @ [prepare_for_mongo (message_to_dict (Message e md))],
         conversations := update_one (conversations st) [(''id'', VStr (conversation_id md))]
            [(''last_message'', VStr (preview (content md))), (''last_activity'', VIso (now2 e))],
         emitted := emitted st @ [\<lparr>event = ''new_message'', payload = message_to_dict (Message e md),
                                   room = VStr (conversation_id md), skip_sid = None\<rparr>],
         inbox := (\<lambda>s. if s \<in> rooms st (VStr (conversation_id md))
                        then inbox st s @ [(''new_message'', message_to_dict (Message e md))]
                        else inbox st s)\<rparr>)"
  by (simp add: create_message_def Let_def insert_one_def emit_def recipients_def
        cong del: if_weak_cong)

lemma create_message_returned_iff:
  "returned (fst (create_message e md st)) \<longleftrightarrow> insert_ok e \<and> update_ok e \<and> emit_ok e"
  by (cases "insert_ok e"; cases "update_ok e"; cases "emit_ok e")
     (simp_all add: create_message_insert_fails create_message_update_fails
        create_message_emit_fails create_message_accepted returned_simps)

lemma ai_chat_response_ai_fails:
  "ai_reply e = None \<Longrightarrow> ai_chat_response e md st = (Inr ai_failed, st)"
  by (simp add: ai_chat_response_def ai_chat_try_def ai_failed_def)

lemma ai_chat_response_insert_fails:
  "\<not> insert_ok e \<Longrightarrow> ai_chat_response e md st = (Inr ai_failed, st)"
  by (simp add: ai_chat_response_def ai_chat_try_def ai_failed_def Let_def split: option.split)

lemma ai_chat_response_update_fails:
  "ai_reply e = Some r \<Longrightarrow> insert_ok e \<Longrightarrow> \<not> update_ok e \<Longrightarrow>
   ai_chat_response e md st =
     (Inr ai_failed,
      st\<lparr>messages := messages st @ [prepare_for_mongo (message_to_dict (Message e (ai_draft r md)))]\<rparr>)"
  by (simp add: ai_chat_response_def ai_chat_try_def ai_failed_def ai_draft_def Let_def
        insert_one_def)

lemma ai_chat_response_emit_fails:
  "ai_reply e = Some r \<Longrightarrow> insert_ok e \<Longrightarrow> update_ok e \<Longrightarrow> \<not> emit_ok e \<Longrightarrow>
   ai_chat_response e md st =
     (Inr ai_failed,
      st\<lparr>messages := messages st @ [prepare_for_mongo (message_to_dict (Message e (ai_draft r md)))],
         conversations := update_one (conversations st) [(''id'', VStr (conversation_id md))]
            [(''last_message'', VStr (str ''AI: '' @ preview r)),
             (''last_activity'', VIso (now2 e))]\<rparr>)"
  by (simp add: ai_chat_response_def ai_chat_try_def ai_failed_def ai_draft_def Let_def
        insert_one_def emit_def)

lemma ai_chat_response_accepted:
  "ai_reply e = Some r \<Longrightarrow> insert_ok e \<Longrightarrow> update_ok e \<Longrightarrow> emit_ok e \<Longrightarrow>
   ai_chat_response e md st =
     (Inr (RMessage (Message e (ai_draft r md))),
      st\<lparr>messages := messages st @ [prepare_for_mongo (message_to_dict (Message e (ai_draft r md)))],
         conversations := update_one (conversations st) [(''id'', VStr (conversation_id md))]
            [(''last_message'', VStr (str ''AI: '' @ preview r)),
             (''last_activity'', VIso (now2 e))],
         emitted := emitted st @ [\<lparr>event = ''new_message'',
                                   payload = message_to_dict (Message e (ai_draft r md)),
                                   room = VStr (conversation_id md), skip_sid = None\<rparr>],
         inbox := (\<lambda>s. if s \<in> rooms st (VStr (conversation_id md))
                        then inbox st s @ [(''new_message'', message_to_dict (Message e (ai_draft r md)))]
                        else inbox st s)\<rparr>)"
  by (simp add: ai_chat_response_def ai_chat_try_def ai_draft_def Let_def
        insert_one_def emit_def recipients_def cong del: if_weak_cong)

lemma message_doc_fields:
  "dict_get (prepare_for_mongo (message_to_dict m)) ''id'' = VStr (id_message m)"
  "dict_get (prepare_for_mongo (message_to_dict m)) ''sender_id'' = VStr (sender_id m)"
  "dict_get (prepare_for_mongo (message_to_dict m)) ''sender_username'' = VStr (sender_username m)"
  "dict_get (prepare_for_mongo (message_to_dict m)) ''content'' = VStr (content m)"
  "dict_get (prepare_for_mongo (message_to_dict m)) ''message_type'' = VStr (message_type m)"
  "dict_get (prepare_for_mongo (message_to_dict m)) ''timestamp'' = VIso (timestamp m)"
  "dict_get (prepare_for_mongo (message_to_dict m)) ''conversation_id'' = VStr (conversation_id m)"
  by (simp_all add: dict_get_def prepare_for_mongo_def message_to_dict_def)

lemma Message_fields:
  "content (Message e kw) = content kw"
  "sender_id (Message e kw) = sender_id kw"
  "sender_username (Message e kw) = sender_username kw"
  "conversation_id (Message e kw) = conversation_id kw"
  "message_type (Message e kw) = message_type kw"
  "id_message (Message e kw) = uuid4 e"
  "timestamp (Message e kw) = now1 e"
  by (simp_all add: Message_def)

lemma ai_draft_fields:
  "content (ai_draft r md) = r"
  "sender_id (ai_draft r md) = str ''ai-assistant''"
  "sender_username (ai_draft r md) = str ''AI Assistant''"
  "conversation_id (ai_draft r md) = conversation_id md"
  "message_type (ai_draft r md) = str ''ai_response''"
  by (simp_all add: ai_draft_def)

lemma state_c1_fields:
  "users state_c1 = []"
  "conversations state_c1 =
     [[(''id'', VStr (str ''c1'')), (''name'', VStr (str ''general'')),
       (''participants'', VList [VStr (str ''u1'')]), (''created_at'', VIso 1),
       (''last_message'', VNone), (''last_activity'', VIso 2)]]"
  "messages state_c1 = []"
  "emitted state_c1 = []"
  "inbox state_c1 = (\<lambda>s. [])"
  by (simp_all add: state_c1_def enter_room_def connect_def create_conversation_def env_conv_def
        init_state_def Let_def insert_one_def prepare_for_mongo_def conversation_to_dict_def opt_val_def)

lemma state_c1_rooms:
  "rooms state_c1 (VStr (str ''c1'')) = {str ''s1'', str ''s2''}"
  "rooms state_c1 VNone = {str ''s1'', str ''s2''}"
  by (auto simp add: state_c1_def enter_room_def connect_def create_conversation_def env_conv_def
        init_state_def Let_def str_eq_iff)

lemma matches_id: "matches [(''id'', v)] d \<longleftrightarrow> map_of d ''id'' = Some v"
  by (simp add: matches_def)

lemma apply_set_summary:
  "apply_set [(''last_message'', x), (''last_activity'', y)] d =
     dict_set ''last_activity'' y (dict_set ''last_message'' x d)"
  by (simp add: apply_set_def)

lemma map_of_apply_set_summary:
  "map_of (apply_set [(''last_message'', x), (''last_activity'', y)] d) k =
     (if k = ''last_activity'' then Some y
      else if k = ''last_message'' then Some x else map_of d k)"
  by (simp add: apply_set_summary map_of_dict_set)

lemma update_one_no_match:
  "find_one coll flt = None \<Longrightarrow> update_one coll flt upd = coll"
  by (induction coll) (auto simp: find_one_def split: if_splits)

lemma find_one_update_one_same:
  "find_one (update_one coll [(''id'', v)] [(''last_message'', x), (''last_activity'', y)]) [(''id'', v)] =
     map_option (apply_set [(''last_message'', x), (''last_activity'', y)]) (find_one coll [(''id'', v)])"
  by (induction coll) (auto simp: find_one_def matches_id map_of_apply_set_summary)

lemma find_one_update_one_other:
  "v' \<noteq> v \<Longrightarrow>
   find_one (update_one coll [(''id'', v)] [(''last_message'', x), (''last_activity'', y)]) [(''id'', v')] =
     find_one coll [(''id'', v')]"
  by (induction coll) (auto simp: find_one_def matches_id map_of_apply_set_summary)

lemma conversation_field_exists:
  "conversation_field st c k \<noteq> None \<longleftrightarrow> find_one (conversations st) [(''id'', VStr c)] \<noteq> None"
  by (simp add: conversation_field_def split: option.splits)

lemma conversation_field_summary:
  "conversations st' = update_one (conversations st) [(''id'', VStr c)]
      [(''last_message'', x), (''last_activity'', y)] \<Longrightarrow>
   conversation_field st' c' k =
     (if c' = c then
        (case conversation_field st c k of
           None \<Rightarrow> None
         | Some v \<Rightarrow> Some (if k = ''last_activity'' then y
                           else if k = ''last_message'' then x else v))
      else conversation_field st c' k)"
  by (auto simp: conversation_field_def find_one_update_one_same find_one_update_one_other
        dict_get_def map_of_apply_set_summary split: option.splits)

lemma create_message_conversations:
  "returned (fst (create_message e md st)) \<Longrightarrow>
   conversations (snd (create_message e md st)) =
     update_one (conversations st) [(''id'', VStr (conversation_id md))]
       [(''last_message'', VStr (preview (content md))), (''last_activity'', VIso (now2 e))]"
  by (simp add: create_message_returned_iff create_message_accepted)

lemma create_message_messages:
  "returned (fst (create_message e md st)) \<Longrightarrow>
   messages (snd (create_message e md st)) =
     messages st @ [prepare_for_mongo (message_to_dict (Message e md))]"
  by (simp add: create_message_returned_iff create_message_accepted)

lemma state_c1_has_c1:
  "find_one (conversations state_c1) [(''id'', VStr (str ''c1''))] =
     Some [(''id'', VStr (str ''c1'')), (''name'', VStr (str ''general'')),
       (''participants'', VList [VStr (str ''u1'')]), (''created_at'', VIso 1),
       (''last_message'', VNone), (''last_activity'', VIso 2)]"
  by (simp add: state_c1_fields find_one_def matches_id)

lemma str_Nil_iff: "str s = [] \<longleftrightarrow> s = []"
  by (simp add: str_def)

lemma all_accepted_iff:
  "all_accepted st xs \<longleftrightarrow> (\<forall>(e, md) \<in> set xs. insert_ok e \<and> update_ok e \<and> emit_ok e)"
  by (induction xs arbitrary: st) (auto simp: create_message_returned_iff)

lemma conversation_field_activity:
  "activity st c = Some t \<longleftrightarrow> conversation_field st c ''last_activity'' = Some (VIso t)"
  by (auto simp: activity_def split: option.splits val.splits)

lemma activity_create_message:
  assumes "returned (fst (create_message e md st))" and "activity st c = Some t0"
  shows "activity (snd (create_message e md st)) c =
           Some (if conversation_id md = c then now2 e else t0)"
  using assms(2)
  by (auto simp add: conversation_field_activity
        conversation_field_summary [OF create_message_conversations [OF assms(1)]])

lemma update_times_Cons:
  "update_times c ((e, md) # xs) =
     (if conversation_id md = c then now2 e # update_times c xs else update_times c xs)"
  by (simp add: update_times_def)

lemma update_times_append:
  "update_times c (xs @ ys) = update_times c xs @ update_times c ys"
  by (simp add: update_times_def)

lemma clock_readings_append:
  "clock_readings (xs @ ys) = clock_readings xs @ clock_readings ys"
  by (simp add: clock_readings_def)

lemma update_times_subset: "set (update_times c xs) \<subseteq> set (clock_readings xs)"
  by (auto simp: update_times_def clock_readings_def)

lemma activity_submit_all:
  "all_accepted st xs \<Longrightarrow> activity st c = Some t0 \<Longrightarrow>
   activity (submit_all st xs) c = Some (last (t0 # update_times c xs))"
proof (induction xs arbitrary: st t0)
  case Nil
  then show ?case by (simp add: update_times_def)
next
  case (Cons x xs)
  obtain e md where x: "x = (e, md)" by (cases x)
  from Cons.prems(1) have r: "returned (fst (create_message e md st))"
    and acc: "all_accepted (snd (create_message e md st)) xs"
    by (simp_all add: x)
  let ?t = "if conversation_id md = c then now2 e else t0"
  have "activity (snd (create_message e md st)) c = Some ?t"
    using r Cons.prems(2) by (rule activity_create_message)
  from Cons.IH [OF acc this]
  show ?case by (simp add: x update_times_Cons)
qed

lemma messages_submit_all:
  "all_accepted st xs \<Longrightarrow>
   messages (submit_all st xs) =
     messages st @ map (\<lambda>(e, md). prepare_for_mongo (message_to_dict (Message e md))) xs"
proof (induction xs arbitrary: st)
  case Nil
  then show ?case by simp
next
  case (Cons x xs)
  obtain e md where x: "x = (e, md)" by (cases x)
  from Cons.prems have r: "returned (fst (create_message e md st))"
    and acc: "all_accepted (snd (create_message e md st)) xs"
    by (simp_all add: x)
  show ?case
    by (simp add: x Cons.IH [OF acc] create_message_messages [OF r])
qed

lemma last_update_times_mono:
  assumes "sorted (t0 # clock_readings (ys @ zs))"
  shows "last (t0 # update_times c ys) \<le> last (t0 # update_times c (ys @ zs))"
proof (cases "update_times c zs = []")
  case True
  then show ?thesis by (simp add: update_times_append)
next
  case False
  then have "last (t0 # update_times c (ys @ zs)) = last (update_times c zs)"
    by (simp add: update_times_append)
  moreover have "last (update_times c zs) \<in> set (clock_readings zs)"
    using False update_times_subset [of c zs] last_in_set by blast
  moreover have "last (t0 # update_times c ys) \<in> set (t0 # clock_readings ys)"
    using update_times_subset [of c ys] last_in_set [of "t0 # update_times c ys"] by auto
  moreover have "\<forall>a \<in> set (t0 # clock_readings ys). \<forall>b \<in> set (clock_readings zs). a \<le> b"
    using assms by (auto simp: clock_readings_append sorted_append)
  ultimately show ?thesis by auto
qed

lemma all_accepted_take: "all_accepted st xs \<Longrightarrow> all_accepted st (take n xs)"
  unfolding all_accepted_iff using set_take_subset [of n xs] by blast

lemma sorted_clock_take:
  assumes "sorted (t0 # clock_readings xs)"
  shows "sorted (t0 # clock_readings (take n xs))"
proof -
  have "clock_readings xs = clock_readings (take n xs) @ clock_readings (drop n xs)"
    by (simp add: clock_readings_append [symmetric])
  then have "sorted ((t0 # clock_readings (take n xs)) @ clock_readings (drop n xs))"
    using assms by simp
  then show ?thesis
    unfolding sorted_append by blast
qed

lemma activity_prefix_mono:
  assumes acc: "all_accepted st xs" and t0: "activity st c = Some t0"
    and srt: "sorted (t0 # clock_readings xs)" and ij: "i \<le> j"
  shows "\<exists>t t'. activity (submit_all st (take i xs)) c = Some t
           \<and> activity (submit_all st (take j xs)) c = Some t' \<and> t \<le> t'"
proof -
  let ?ys = "take i xs" and ?zs = "drop i (take j xs)"
  have split: "take j xs = ?ys @ ?zs"
    using ij by (metis append_take_drop_id min.absorb1 take_take)
  have ai: "activity (submit_all st ?ys) c = Some (last (t0 # update_times c ?ys))"
    using all_accepted_take [OF acc] t0 by (rule activity_submit_all)
  have aj: "activity (submit_all st (take j xs)) c = Some (last (t0 # update_times c (take j xs)))"
    using all_accepted_take [OF acc] t0 by (rule activity_submit_all)
  have "sorted (t0 # clock_readings (?ys @ ?zs))"
    using sorted_clock_take [OF srt, of j] split by simp
  then have "last (t0 # update_times c ?ys) \<le> last (t0 # update_times c (?ys @ ?zs))"
    by (rule last_update_times_mono)
  then show ?thesis
    using ai aj split by simp
qed

section \<open>Rooms, presence and the preview\<close>

lemma connect_rooms:
  "sid \<in> rooms (connect sid st) VNone" "sid \<in> rooms (connect sid st) (VStr sid)"
  by (simp_all add: connect_def enter_room_def)

lemma disconnect_rooms: "sid \<notin> rooms (disconnect sid st) r"
  by (simp add: disconnect_def)

lemma join_then_leave:
  assumes "truthy (dict_get data ''conversation_id'')"
    and "join_conversation True sid data st = Inr st1"
  shows "sid \<notin> rooms (leave_conversation sid data st1) (dict_get data ''conversation_id'')"
  using assms
  by (auto simp: join_conversation_def leave_conversation_def emit_def enter_room_def
        leave_room_def Let_def)

lemma typing_start_without_room:
  "\<not> truthy (dict_get data ''conversation_id'') \<Longrightarrow> typing_start ok sid data st = Inr st"
  by (simp add: typing_start_def Let_def)

lemma typing_stop_inbox:
  assumes "truthy (dict_get data ''conversation_id'')"
    and "typing_stop True sid data st = Inr st1"
  shows "inbox st1 s =
    (if s \<in> rooms st (dict_get data ''conversation_id'') \<and> s \<noteq> sid
     then inbox st s @ [(''user_typing'', [(''user_id'', dict_get data ''user_id''),
                                           (''typing'', VBool False)])]
     else inbox st s)"
  using assms
  by (auto simp: typing_stop_def emit_def recipients_def Let_def)

lemma length_preview: "length (preview c) \<le> 53"
  by (simp add: preview_def length_str)

section \<open>The claims\<close>

text \<open>
  C1. The claim fails: \<open>last_activity\<close> is not the timestamp of the message. The
  message's timestamp is the clock reading made when the message object is built
  (here 10); \<open>last_activity\<close> is a second reading, made for the summary update after
  the insert (here 20).
\<close>

theorem last_activity_counterexample:
  "all_accepted state_c1 [(env_ok, msg_hello)]
   \<and> dict_get (last (messages (submit_all state_c1 [(env_ok, msg_hello)]))) ''timestamp'' = VIso 10
   \<and> conversation_field (submit_all state_c1 [(env_ok, msg_hello)]) (str ''c1'') ''last_activity'' =
       Some (VIso 20)"
proof -
  have ok: "insert_ok env_ok" "update_ok env_ok" "emit_ok env_ok"
    by (simp_all add: env_ok_def)
  have c: "conversation_id msg_hello = str ''c1''"
    by (simp add: msg_hello_def)
  have n: "now1 env_ok = 10" "now2 env_ok = 20"
    by (simp_all add: env_ok_def)
  have r: "all_accepted state_c1 [(env_ok, msg_hello)]"
    by (simp add: all_accepted_iff ok)
  have t: "dict_get (last (messages (submit_all state_c1 [(env_ok, msg_hello)]))) ''timestamp'' = VIso 10"
    by (simp add: create_message_accepted [OF ok] message_doc_fields Message_fields n)
  have a: "conversation_field (submit_all state_c1 [(env_ok, msg_hello)]) (str ''c1'') ''last_activity'' =
       Some (VIso 20)"
    by (simp add: create_message_accepted [OF ok] c n conversation_field_def
          find_one_update_one_same state_c1_has_c1 dict_get_def map_of_apply_set_summary)
  show ?thesis
    using r t a by simp
qed

text \<open>
  C1, amended. Submissions are made one after the other, all accepted, on a state in
  which conversation \<open>c\<close> has a \<open>last_activity\<close>. Afterwards \<open>last_activity\<close> of
  \<open>c\<close> is the clock reading taken for the summary update of the most recent submission
  to \<open>c\<close> (or the initial value when there is none); the stored messages are the old
  ones followed by one per submission, each with its own, earlier reading as timestamp.
  When the clock readings of the sequence do not decrease, \<open>last_activity\<close> of \<open>c\<close>
  does not decrease from any point of the sequence to any later one.
\<close>

theorem last_activity_sequence:
  assumes "all_accepted st xs" and "activity st c = Some t0"
  shows "activity (submit_all st xs) c = Some (last (t0 # update_times c xs))
    \<and> messages (submit_all st xs) =
        messages st @ map (\<lambda>(e, md). prepare_for_mongo (message_to_dict (Message e md))) xs
    \<and> (\<forall>ys e md. xs = ys @ [(e, md)] \<and> conversation_id md = c \<longrightarrow>
          activity (submit_all st xs) c = Some (now2 e)
          \<and> dict_get (last (messages (submit_all st xs))) ''timestamp'' = VIso (now1 e))
    \<and> (sorted (t0 # clock_readings xs) \<longrightarrow>
          (\<forall>i j. i \<le> j \<and> j \<le> length xs \<longrightarrow>
             (\<exists>t t'. activity (submit_all st (take i xs)) c = Some t
                   \<and> activity (submit_all st (take j xs)) c = Some t' \<and> t \<le> t')))"
proof -
  have a: "activity (submit_all st xs) c = Some (last (t0 # update_times c xs))"
    using assms by (rule activity_submit_all)
  have m: "messages (submit_all st xs) =
        messages st @ map (\<lambda>(e, md). prepare_for_mongo (message_to_dict (Message e md))) xs"
    using assms(1) by (rule messages_submit_all)
  have l: "\<forall>ys e md. xs = ys @ [(e, md)] \<and> conversation_id md = c \<longrightarrow>
          activity (submit_all st xs) c = Some (now2 e)
          \<and> dict_get (last (messages (submit_all st xs))) ''timestamp'' = VIso (now1 e)"
  proof (intro allI impI)
    fix ys e md
    assume h: "xs = ys @ [(e, md)] \<and> conversation_id md = c"
    then have u: "update_times c xs = update_times c ys @ [now2 e]"
      by (simp add: update_times_def)
    have "last (messages (submit_all st xs)) = prepare_for_mongo (message_to_dict (Message e md))"
      unfolding m using h by simp
    then show "activity (submit_all st xs) c = Some (now2 e)
          \<and> dict_get (last (messages (submit_all st xs))) ''timestamp'' = VIso (now1 e)"
      by (simp add: a u message_doc_fields Message_fields)
  qed
  have s: "sorted (t0 # clock_readings xs) \<longrightarrow>
          (\<forall>i j. i \<le> j \<and> j \<le> length xs \<longrightarrow>
             (\<exists>t t'. activity (submit_all st (take i xs)) c = Some t
                   \<and> activity (submit_all st (take j xs)) c = Some t' \<and> t \<le> t'))"
    using activity_prefix_mono [OF assms] by blast
  show ?thesis
    using a m l s by blast
qed

theorem last_activity_sequence_witness:
  "all_accepted state_c1 two_submissions
   \<and> activity state_c1 (str ''c1'') = Some 2
   \<and> sorted (2 # clock_readings two_submissions)
   \<and> activity (submit_all state_c1 two_submissions) (str ''c1'') = Some 40
   \<and> dict_get (last (messages (submit_all state_c1 two_submissions))) ''timestamp'' = VIso 30
   \<and> (\<exists>t t'. activity (submit_all state_c1 (take 1 two_submissions)) (str ''c1'') = Some t
         \<and> activity (submit_all state_c1 (take 2 two_submissions)) (str ''c1'') = Some t'
         \<and> t \<le> t')"
proof -
  have acc: "all_accepted state_c1 two_submissions"
    by (simp add: all_accepted_iff two_submissions_def env_ok_def env_later_def)
  have t0: "activity state_c1 (str ''c1'') = Some 2"
    by (simp add: activity_def conversation_field_def state_c1_has_c1 dict_get_def)
  have srt: "sorted (2 # clock_readings two_submissions)"
    by (simp add: clock_readings_def two_submissions_def env_ok_def env_later_def)
  have c: "conversation_id msg_long = str ''c1''"
    by (simp add: msg_long_def)
  have sp: "two_submissions = [(env_ok, msg_hello)] @ [(env_later, msg_long)]"
    by (simp add: two_submissions_def)
  have n: "now1 env_later = 30" "now2 env_later = 40"
    by (simp_all add: env_later_def)
  have len: "length two_submissions = 2"
    by (simp add: two_submissions_def)
  have "(1::nat) \<le> 2 \<and> 2 \<le> length two_submissions"
    by (simp add: len)
  then show ?thesis
    using last_activity_sequence [OF acc t0] acc t0 srt sp c n
    by (metis (no_types, lifting))
qed

text \<open>
  C2. The claim fails on the summary preview. For the same content \<open>hi\<close>, the same
  identifier, clock readings and collaborator outcomes, the human path stores the
  preview \<open>hi\<close> and the AI path stores \<open>AI: hi\<close>.
\<close>

theorem uniform_pipeline_counterexample:
  "content (ai_draft (str ''hi'') msg_hello) = str ''hi''
   \<and> ai_reply env_ok = Some (str ''hi'')
   \<and> conversation_field (snd (create_message env_ok (ai_draft (str ''hi'') msg_hello) state_c1))
        (str ''c1'') ''last_message'' = Some (VStr (str ''hi''))
   \<and> conversation_field (snd (ai_chat_response env_ok msg_hello state_c1))
        (str ''c1'') ''last_message'' = Some (VStr (str ''AI: hi''))
   \<and> conversation_field (snd (ai_chat_response env_ok msg_hello state_c1)) (str ''c1'') ''last_message''
       \<noteq> conversation_field (snd (create_message env_ok (ai_draft (str ''hi'') msg_hello) state_c1))
           (str ''c1'') ''last_message''"
proof -
  have ok: "ai_reply env_ok = Some (str ''hi'')" "insert_ok env_ok" "update_ok env_ok" "emit_ok env_ok"
    by (simp_all add: env_ok_def)
  have c: "conversation_id msg_hello = str ''c1''"
    by (simp add: msg_hello_def)
  have h: "conversation_field (snd (create_message env_ok (ai_draft (str ''hi'') msg_hello) state_c1))
        (str ''c1'') ''last_message'' = Some (VStr (str ''hi''))"
    by (simp add: create_message_accepted [OF ok(2-4)] ai_draft_fields c conversation_field_def
          find_one_update_one_same state_c1_has_c1 dict_get_def map_of_apply_set_summary
          preview_def length_str)
  have a: "conversation_field (snd (ai_chat_response env_ok msg_hello state_c1))
        (str ''c1'') ''last_message'' = Some (VStr (str ''AI: hi''))"
    by (simp add: ai_chat_response_accepted [OF ok] c conversation_field_def
          find_one_update_one_same state_c1_has_c1 dict_get_def map_of_apply_set_summary
          preview_def length_str str_append)
  show ?thesis
    by (simp add: h a ok ai_draft_fields str_eq_iff)
qed

text \<open>
  C2, amended. \<open>ai_chat_response\<close> does not call \<open>create_message\<close>: it has its own copy
  of the three steps. Compared with \<open>create_message\<close> run on the draft the AI path
  builds, with the same identifier, clock readings and collaborator outcomes, it leaves
  the same stored messages, the same emits and deliveries, the same users and rooms,
  and the same conversation fields except the \<open>last_message\<close> of the message's
  conversation: there the AI path writes \<open>AI: \<close> followed by the preview the human
  path writes. Where \<open>create_message\<close> returns the message the AI path returns it
  too; where \<open>create_message\<close> raises, the AI path returns its error dictionary.
\<close>

theorem ai_path_mirrors_pipeline:
  fixes e :: env and md :: message_create and st :: state and r :: pystr
  assumes "ai_reply e = Some r"
  defines "sa \<equiv> snd (ai_chat_response e md st)"
      and "sh \<equiv> snd (create_message e (ai_draft r md) st)"
  shows "messages sa = messages sh \<and> emitted sa = emitted sh \<and> inbox sa = inbox sh
    \<and> users sa = users sh \<and> rooms sa = rooms sh
    \<and> (\<forall>c k. c \<noteq> conversation_id md \<or> k \<noteq> ''last_message'' \<longrightarrow>
          conversation_field sa c k = conversation_field sh c k)
    \<and> (\<forall>m. fst (create_message e (ai_draft r md) st) = Inr m \<longrightarrow>
          fst (ai_chat_response e md st) = Inr (RMessage m))
    \<and> (\<forall>x. fst (create_message e (ai_draft r md) st) = Inl x \<longrightarrow>
          fst (ai_chat_response e md st) = Inr (RDict [(''error'', VStr (str ''AI response failed''))]))
    \<and> (insert_ok e \<and> update_ok e
        \<and> conversation_field st (conversation_id md) ''id'' \<noteq> None \<longrightarrow>
          conversation_field sh (conversation_id md) ''last_message'' = Some (VStr (preview r))
          \<and> conversation_field sa (conversation_id md) ''last_message'' =
              Some (VStr (str ''AI: '' @ preview r)))"
proof (cases "insert_ok e \<and> update_ok e")
  case False
  then have "ai_chat_response e md st = (Inr ai_failed, sh) \<and> (\<exists>x. create_message e (ai_draft r md) st = (Inl x, sh))"
    unfolding sh_def using assms(1)
    by (cases "insert_ok e")
       (simp_all add: ai_chat_response_insert_fails ai_chat_response_update_fails
          create_message_insert_fails create_message_update_fails)
  then show ?thesis
    using False by (auto simp: sa_def ai_failed_def)
next
  case True
  then have ok: "insert_ok e" "update_ok e" by simp_all
  have cid: "conversation_id (ai_draft r md) = conversation_id md" "content (ai_draft r md) = r"
    by (simp_all add: ai_draft_fields)
  have ca: "conversations sa = update_one (conversations st) [(''id'', VStr (conversation_id md))]
              [(''last_message'', VStr (str ''AI: '' @ preview r)), (''last_activity'', VIso (now2 e))]"
    unfolding sa_def using assms(1) ok
    by (cases "emit_ok e") (simp_all add: ai_chat_response_emit_fails ai_chat_response_accepted)
  have ch: "conversations sh = update_one (conversations st) [(''id'', VStr (conversation_id md))]
              [(''last_message'', VStr (preview r)), (''last_activity'', VIso (now2 e))]"
    unfolding sh_def using ok
    by (cases "emit_ok e") (simp_all add: create_message_emit_fails create_message_accepted cid)
  have rest: "messages sa = messages sh \<and> emitted sa = emitted sh \<and> inbox sa = inbox sh
    \<and> users sa = users sh \<and> rooms sa = rooms sh"
    unfolding sa_def sh_def using assms(1) ok
    by (cases "emit_ok e")
       (simp_all add: ai_chat_response_emit_fails ai_chat_response_accepted
          create_message_emit_fails create_message_accepted cid)
  have res: "(\<forall>m. fst (create_message e (ai_draft r md) st) = Inr m \<longrightarrow>
          fst (ai_chat_response e md st) = Inr (RMessage m))
    \<and> (\<forall>x. fst (create_message e (ai_draft r md) st) = Inl x \<longrightarrow>
          fst (ai_chat_response e md st) = Inr (RDict [(''error'', VStr (str ''AI response failed''))]))"
    using assms(1) ok
    by (cases "emit_ok e")
       (simp_all add: ai_chat_response_emit_fails ai_chat_response_accepted
          create_message_emit_fails create_message_accepted ai_failed_def)
  have others: "\<forall>c k. c \<noteq> conversation_id md \<or> k \<noteq> ''last_message'' \<longrightarrow>
          conversation_field sa c k = conversation_field sh c k"
    by (auto simp: conversation_field_summary [OF ca] conversation_field_summary [OF ch]
          split: option.splits)
  have lm: "conversation_field st (conversation_id md) ''id'' \<noteq> None \<longrightarrow>
          conversation_field sh (conversation_id md) ''last_message'' = Some (VStr (preview r))
          \<and> conversation_field sa (conversation_id md) ''last_message'' =
              Some (VStr (str ''AI: '' @ preview r))"
  proof
    assume "conversation_field st (conversation_id md) ''id'' \<noteq> None"
    then have "find_one (conversations st) [(''id'', VStr (conversation_id md))] \<noteq> None"
      using conversation_field_exists by blast
    then have "conversation_field st (conversation_id md) ''last_message'' \<noteq> None"
      using conversation_field_exists by blast
    then obtain v where "conversation_field st (conversation_id md) ''last_message'' = Some v"
      by blast
    then show "conversation_field sh (conversation_id md) ''last_message'' = Some (VStr (preview r))
          \<and> conversation_field sa (conversation_id md) ''last_message'' =
              Some (VStr (str ''AI: '' @ preview r))"
      by (simp add: conversation_field_summary [OF ca] conversation_field_summary [OF ch])
  qed
  show ?thesis
    using rest res others lm by blast
qed

theorem ai_path_mirrors_pipeline_witness:
  "ai_reply env_ok = Some (str ''hi'')
   \<and> messages (snd (ai_chat_response env_ok msg_hello state_c1)) =
       messages (snd (create_message env_ok (ai_draft (str ''hi'') msg_hello) state_c1))
   \<and> emitted (snd (ai_chat_response env_ok msg_hello state_c1)) =
       emitted (snd (create_message env_ok (ai_draft (str ''hi'') msg_hello) state_c1))
   \<and> conversation_field (snd (ai_chat_response env_ok msg_hello state_c1)) (str ''c1'') ''last_activity'' =
       conversation_field (snd (create_message env_ok (ai_draft (str ''hi'') msg_hello) state_c1))
         (str ''c1'') ''last_activity''
   \<and> fst (create_message env_ok (ai_draft (str ''hi'') msg_hello) state_c1) =
       Inr (Message env_ok (ai_draft (str ''hi'') msg_hello))
   \<and> fst (ai_chat_response env_ok msg_hello state_c1) =
       Inr (RMessage (Message env_ok (ai_draft (str ''hi'') msg_hello)))
   \<and> fst (create_message (env_ok\<lparr>emit_ok := False\<rparr>) (ai_draft (str ''hi'') msg_hello) state_c1) =
       Inl EmitError
   \<and> fst (ai_chat_response (env_ok\<lparr>emit_ok := False\<rparr>) msg_hello state_c1) =
       Inr (RDict [(''error'', VStr (str ''AI response failed''))])
   \<and> conversation_field (snd (create_message env_ok (ai_draft (str ''hi'') msg_hello) state_c1))
        (str ''c1'') ''last_message'' = Some (VStr (preview (str ''hi'')))
   \<and> conversation_field (snd (ai_chat_response env_ok msg_hello state_c1))
        (str ''c1'') ''last_message'' = Some (VStr (str ''AI: '' @ preview (str ''hi'')))"
proof -
  have ok: "ai_reply env_ok = Some (str ''hi'')" "insert_ok env_ok" "update_ok env_ok" "emit_ok env_ok"
    by (simp_all add: env_ok_def)
  have ok': "ai_reply (env_ok\<lparr>emit_ok := False\<rparr>) = Some (str ''hi'')"
    "insert_ok (env_ok\<lparr>emit_ok := False\<rparr>)" "update_ok (env_ok\<lparr>emit_ok := False\<rparr>)"
    "\<not> emit_ok (env_ok\<lparr>emit_ok := False\<rparr>)"
    by (simp_all add: env_ok_def)
  have c: "conversation_id msg_hello = str ''c1''"
    by (simp add: msg_hello_def)
  have ex: "conversation_field state_c1 (str ''c1'') ''id'' \<noteq> None"
    by (simp add: conversation_field_def state_c1_has_c1)
  have f1: "fst (create_message env_ok (ai_draft (str ''hi'') msg_hello) state_c1) =
       Inr (Message env_ok (ai_draft (str ''hi'') msg_hello))"
    by (simp add: create_message_accepted [OF ok(2-4)])
  have f2: "fst (create_message (env_ok\<lparr>emit_ok := False\<rparr>) (ai_draft (str ''hi'') msg_hello) state_c1) =
       Inl EmitError"
    by (simp add: create_message_emit_fails [OF ok'(2-4)])
  show ?thesis
    using ai_path_mirrors_pipeline [OF ok(1), of msg_hello state_c1]
          ai_path_mirrors_pipeline [OF ok'(1), of msg_hello state_c1]
          ex f1 f2 ok
    by (simp add: c)
qed

text \<open>
  C3. A request for an AI reply: when the call to the AI service fails, the state is
  left as it was, so no message is persisted and nothing is broadcast. When the call
  returns a text and the store accepts the insert, exactly one document is added to the
  messages, with sender id \<open>ai-assistant\<close>, sender name \<open>AI Assistant\<close>, type
  \<open>ai_response\<close>, the returned text as content and the conversation id of the request.
\<close>

theorem ai_reply_persistence:
  "(ai_reply e = None \<longrightarrow> snd (ai_chat_response e md st) = st)
   \<and> (\<forall>r. ai_reply e = Some r \<and> insert_ok e \<longrightarrow>
         (\<exists>d. messages (snd (ai_chat_response e md st)) = messages st @ [d]
            \<and> dict_get d ''sender_id'' = VStr (str ''ai-assistant'')
            \<and> dict_get d ''sender_username'' = VStr (str ''AI Assistant'')
            \<and> dict_get d ''message_type'' = VStr (str ''ai_response'')
            \<and> dict_get d ''content'' = VStr r
            \<and> dict_get d ''conversation_id'' = VStr (conversation_id md)))"
proof (intro conjI allI impI)
  assume "ai_reply e = None"
  then show "snd (ai_chat_response e md st) = st"
    by (simp add: ai_chat_response_ai_fails)
next
  fix r
  assume a: "ai_reply e = Some r \<and> insert_ok e"
  let ?d = "prepare_for_mongo (message_to_dict (Message e (ai_draft r md)))"
  have "messages (snd (ai_chat_response e md st)) = messages st @ [?d]"
    using a
    by (cases "update_ok e"; cases "emit_ok e")
       (simp_all add: ai_chat_response_update_fails ai_chat_response_emit_fails
          ai_chat_response_accepted)
  then show "\<exists>d. messages (snd (ai_chat_response e md st)) = messages st @ [d]
            \<and> dict_get d ''sender_id'' = VStr (str ''ai-assistant'')
            \<and> dict_get d ''sender_username'' = VStr (str ''AI Assistant'')
            \<and> dict_get d ''message_type'' = VStr (str ''ai_response'')
            \<and> dict_get d ''content'' = VStr r
            \<and> dict_get d ''conversation_id'' = VStr (conversation_id md)"
    by (simp add: message_doc_fields Message_fields ai_draft_fields)
qed

theorem ai_reply_persistence_witness:
  "snd (ai_chat_response (env_ok\<lparr>ai_reply := None\<rparr>) msg_hello state_c1) = state_c1
   \<and> (\<exists>d. messages (snd (ai_chat_response env_ok msg_hello state_c1)) = messages state_c1 @ [d]
            \<and> dict_get d ''sender_id'' = VStr (str ''ai-assistant'')
            \<and> dict_get d ''sender_username'' = VStr (str ''AI Assistant'')
            \<and> dict_get d ''message_type'' = VStr (str ''ai_response'')
            \<and> dict_get d ''content'' = VStr (str ''hi'')
            \<and> dict_get d ''conversation_id'' = VStr (conversation_id msg_hello))"
  using ai_reply_persistence [of "env_ok\<lparr>ai_reply := None\<rparr>" msg_hello state_c1]
        ai_reply_persistence [of env_ok msg_hello state_c1]
  by (simp add: env_ok_def)

text \<open>
  C4. When the insert of the message raises, \<open>create_message\<close> raises that error with
  the state as it was before the request: the conversation summary is not updated and
  nothing is emitted. The AI path does the same with its own message, returning its error
  dictionary. On both paths an emit is recorded only when the message has been appended
  to the stored messages.
\<close>

theorem persist_failure_aborts:
  "(\<not> insert_ok e \<longrightarrow>
      create_message e md st = (Inl InsertError, st)
      \<and> snd (ai_chat_response e md st) = st)
   \<and> (emitted (snd (create_message e md st)) \<noteq> emitted st \<longrightarrow>
        insert_ok e
        \<and> messages (snd (create_message e md st)) =
            messages st @ [prepare_for_mongo (message_to_dict (Message e md))])
   \<and> (emitted (snd (ai_chat_response e md st)) \<noteq> emitted st \<longrightarrow>
        insert_ok e
        \<and> (\<exists>r. ai_reply e = Some r
              \<and> messages (snd (ai_chat_response e md st)) =
                  messages st @ [prepare_for_mongo (message_to_dict (Message e (ai_draft r md)))]))"
proof (intro conjI impI)
  assume "\<not> insert_ok e"
  then show "create_message e md st = (Inl InsertError, st)"
    by (rule create_message_insert_fails)
next
  assume "\<not> insert_ok e"
  then show "snd (ai_chat_response e md st) = st"
    by (simp add: ai_chat_response_insert_fails)
next
  assume em: "emitted (snd (create_message e md st)) \<noteq> emitted st"
  show "insert_ok e"
    using em by (cases "insert_ok e") (simp_all add: create_message_insert_fails)
  show "messages (snd (create_message e md st)) =
          messages st @ [prepare_for_mongo (message_to_dict (Message e md))]"
    using em
    by (cases "insert_ok e"; cases "update_ok e"; cases "emit_ok e")
       (simp_all add: create_message_insert_fails create_message_update_fails
          create_message_emit_fails create_message_accepted)
next
  assume em: "emitted (snd (ai_chat_response e md st)) \<noteq> emitted st"
  show "insert_ok e"
    using em by (cases "insert_ok e") (simp_all add: ai_chat_response_insert_fails)
  show "\<exists>r. ai_reply e = Some r
          \<and> messages (snd (ai_chat_response e md st)) =
              messages st @ [prepare_for_mongo (message_to_dict (Message e (ai_draft r md)))]"
  proof (cases "ai_reply e")
    case None
    with em show ?thesis by (simp add: ai_chat_response_ai_fails)
  next
    case (Some r)
    with em show ?thesis
      by (cases "insert_ok e"; cases "update_ok e"; cases "emit_ok e")
         (simp_all add: ai_chat_response_insert_fails ai_chat_response_update_fails
            ai_chat_response_emit_fails ai_chat_response_accepted)
  qed
qed

theorem persist_failure_aborts_witness:
  "create_message (env_ok\<lparr>insert_ok := False\<rparr>) msg_hello state_c1 = (Inl InsertError, state_c1)
   \<and> snd (ai_chat_response (env_ok\<lparr>insert_ok := False\<rparr>) msg_hello state_c1) = state_c1
   \<and> emitted (snd (create_message env_ok msg_hello state_c1)) \<noteq> emitted state_c1
   \<and> messages (snd (create_message env_ok msg_hello state_c1)) =
       messages state_c1 @ [prepare_for_mongo (message_to_dict (Message env_ok msg_hello))]
   \<and> emitted (snd (ai_chat_response env_ok msg_hello state_c1)) \<noteq> emitted state_c1
   \<and> messages (snd (ai_chat_response env_ok msg_hello state_c1)) =
       messages state_c1 @ [prepare_for_mongo (message_to_dict (Message env_ok (ai_draft (str ''hi'') msg_hello)))]"
proof -
  have ok: "insert_ok env_ok" "update_ok env_ok" "emit_ok env_ok" "ai_reply env_ok = Some (str ''hi'')"
    by (simp_all add: env_ok_def)
  have e1: "emitted (snd (create_message env_ok msg_hello state_c1)) \<noteq> emitted state_c1"
    by (simp add: create_message_accepted ok)
  have e2: "emitted (snd (ai_chat_response env_ok msg_hello state_c1)) \<noteq> emitted state_c1"
    by (simp add: ai_chat_response_accepted ok)
  show ?thesis
    using persist_failure_aborts [of "env_ok\<lparr>insert_ok := False\<rparr>" msg_hello state_c1]
          persist_failure_aborts [of env_ok msg_hello state_c1] e1 e2 ok
    by simp
qed

text \<open>
  C5. An accepted submission stores the full content in the message. When a
  conversation with the message's conversation id exists, its \<open>last_message\<close> becomes
  the first 50 characters of the content followed by \<open>...\<close> if the content is longer
  than 50 characters, and the content itself otherwise.
\<close>

theorem summary_preview:
  assumes "create_message e md st = (Inr m, st')"
  shows "content m = content md
    \<and> messages st' = messages st @ [prepare_for_mongo (message_to_dict m)]
    \<and> dict_get (prepare_for_mongo (message_to_dict m)) ''content'' = VStr (content md)
    \<and> (conversation_field st (conversation_id md) ''id'' \<noteq> None \<longrightarrow>
         conversation_field st' (conversation_id md) ''last_message'' =
           Some (VStr (if length (content md) > 50
                       then take 50 (content md) @ str ''...'' else content md)))"
proof -
  from assms have r: "returned (fst (create_message e md st))"
    by (simp add: returned_simps)
  then have ok: "insert_ok e" "update_ok e" "emit_ok e"
    by (simp_all add: create_message_returned_iff)
  from assms ok have m: "m = Message e md"
    by (simp add: create_message_accepted)
  from assms have st': "st' = snd (create_message e md st)"
    by simp
  have c: "conversations st' = update_one (conversations st) [(''id'', VStr (conversation_id md))]
       [(''last_message'', VStr (preview (content md))), (''last_activity'', VIso (now2 e))]"
    unfolding st' using r by (rule create_message_conversations)
  have ms: "messages st' = messages st @ [prepare_for_mongo (message_to_dict m)]"
    unfolding st' m using r by (rule create_message_messages)
  have p: "conversation_field st (conversation_id md) ''id'' \<noteq> None \<longrightarrow>
         conversation_field st' (conversation_id md) ''last_message'' =
           Some (VStr (if length (content md) > 50
                       then take 50 (content md) @ str ''...'' else content md))"
  proof
    assume "conversation_field st (conversation_id md) ''id'' \<noteq> None"
    then have "find_one (conversations st) [(''id'', VStr (conversation_id md))] \<noteq> None"
      using conversation_field_exists by blast
    then have "conversation_field st (conversation_id md) ''last_message'' \<noteq> None"
      using conversation_field_exists by blast
    then obtain v where "conversation_field st (conversation_id md) ''last_message'' = Some v"
      by blast
    then show "conversation_field st' (conversation_id md) ''last_message'' =
           Some (VStr (if length (content md) > 50
                       then take 50 (content md) @ str ''...'' else content md))"
      by (simp add: conversation_field_summary [OF c] preview_def)
  qed
  show ?thesis
    using ms p by (simp add: m Message_fields message_doc_fields)
qed

theorem summary_preview_witness:
  "conversation_field (snd (create_message env_ok msg_long state_c1)) (str ''c1'') ''last_message'' =
     Some (VStr (str ''The quick brown fox jumps over the lazy dog, twice...''))
   \<and> dict_get (last (messages (snd (create_message env_ok msg_long state_c1)))) ''content'' =
       VStr (str ''The quick brown fox jumps over the lazy dog, twice over.'')
   \<and> conversation_field (snd (create_message env_ok msg_hello state_c1)) (str ''c1'') ''last_message'' =
     Some (VStr (str ''hello''))"
proof -
  have ok: "insert_ok env_ok" "update_ok env_ok" "emit_ok env_ok"
    by (simp_all add: env_ok_def)
  obtain m1 s1 where 1: "create_message env_ok msg_long state_c1 = (Inr m1, s1)"
    using create_message_accepted [OF ok] by blast
  obtain m2 s2 where 2: "create_message env_ok msg_hello state_c1 = (Inr m2, s2)"
    using create_message_accepted [OF ok] by blast
  have ex: "conversation_field state_c1 (str ''c1'') ''id'' \<noteq> None"
    by (simp add: conversation_field_def state_c1_has_c1)
  have c1: "conversation_id msg_long = str ''c1''" "conversation_id msg_hello = str ''c1''"
    by (simp_all add: msg_long_def msg_hello_def)
  have a: "conversation_field s1 (str ''c1'') ''last_message'' =
             Some (VStr (str ''The quick brown fox jumps over the lazy dog, twice...''))
           \<and> dict_get (last (messages s1)) ''content'' =
             VStr (str ''The quick brown fox jumps over the lazy dog, twice over.'')"
    using summary_preview [OF 1] ex
    by (simp add: c1) (simp add: msg_long_def length_str take_str str_append)
  have b: "conversation_field s2 (str ''c1'') ''last_message'' = Some (VStr (str ''hello''))"
    using summary_preview [OF 2] ex
    by (simp add: c1) (simp add: msg_hello_def length_str)
  show ?thesis
    using a b by (simp add: 1 2)
qed

text \<open>
  C6. The claim fails: \<open>create_message\<close> never looks the conversation up. In a
  database without conversations a message for the conversation id \<open>nope\<close> is accepted
  and stored.
\<close>

theorem referential_check_counterexample:
  "find_one (conversations init_state) [(''id'', VStr (conversation_id msg_orphan))] = None
   \<and> fst (create_message env_ok msg_orphan init_state) = Inr (Message env_ok msg_orphan)
   \<and> messages (snd (create_message env_ok msg_orphan init_state)) =
       [[(''id'', VStr (str ''m1'')), (''sender_id'', VStr (str ''u1'')),
         (''sender_username'', VStr (str ''ann'')), (''content'', VStr (str ''hello'')),
         (''message_type'', VStr (str ''text'')), (''timestamp'', VIso 10),
         (''conversation_id'', VStr (str ''nope''))]]"
proof -
  have ok: "insert_ok env_ok" "update_ok env_ok" "emit_ok env_ok"
    by (simp_all add: env_ok_def)
  show ?thesis
    by (simp add: create_message_accepted [OF ok])
       (simp add: init_state_def find_one_def msg_orphan_def env_ok_def Message_def
          message_to_dict_def prepare_for_mongo_def)
qed

text \<open>
  C6, amended. The pipeline makes no existence check. Whenever the insert, the update
  and the emit return, the submission is accepted and its message is stored with the
  conversation id as submitted and emitted to the room of that id; when no conversation
  has that id, the conversations are left as they were.
\<close>

theorem no_referential_check:
  assumes "insert_ok e" and "update_ok e" and "emit_ok e"
  shows "fst (create_message e md st) = Inr (Message e md)
    \<and> messages (snd (create_message e md st)) =
        messages st @ [prepare_for_mongo (message_to_dict (Message e md))]
    \<and> dict_get (prepare_for_mongo (message_to_dict (Message e md))) ''conversation_id'' =
        VStr (conversation_id md)
    \<and> emitted (snd (create_message e md st)) =
        emitted st @ [\<lparr>event = ''new_message'', payload = message_to_dict (Message e md),
                        room = VStr (conversation_id md), skip_sid = None\<rparr>]
    \<and> (find_one (conversations st) [(''id'', VStr (conversation_id md))] = None \<longrightarrow>
         conversations (snd (create_message e md st)) = conversations st)"
  by (simp add: create_message_accepted [OF assms] message_doc_fields Message_fields
        update_one_no_match)

theorem no_referential_check_witness:
  "fst (create_message env_ok msg_orphan state_c1) = Inr (Message env_ok msg_orphan)
   \<and> messages (snd (create_message env_ok msg_orphan state_c1)) =
       messages state_c1 @ [prepare_for_mongo (message_to_dict (Message env_ok msg_orphan))]
   \<and> find_one (conversations state_c1) [(''id'', VStr (conversation_id msg_orphan))] = None
   \<and> conversations (snd (create_message env_ok msg_orphan state_c1)) = conversations state_c1"
proof -
  have ok: "insert_ok env_ok" "update_ok env_ok" "emit_ok env_ok"
    by (simp_all add: env_ok_def)
  have none: "find_one (conversations state_c1) [(''id'', VStr (conversation_id msg_orphan))] = None"
    by (simp add: state_c1_fields find_one_def matches_id msg_orphan_def str_eq_iff)
  show ?thesis
    using no_referential_check [OF ok, of msg_orphan state_c1] none by simp
qed

text \<open>
  C7. \<open>ai_chat_response\<close> never raises. Whenever the AI call, the insert, the summary
  update or the emit fails, it returns, as an ordinary result, the dictionary
  \<open>{"error": "AI response failed"}\<close>. It fabricates no message: when the AI call fails
  the stored messages and the emits are unchanged, and in every case the messages are
  either unchanged or extended by the one document built from the text the AI returned.
\<close>

theorem ai_failure_response_shape:
  "returned (fst (ai_chat_response e md st))
   \<and> (ai_reply e = None \<or> \<not> insert_ok e \<or> \<not> update_ok e \<or> \<not> emit_ok e \<longrightarrow>
        fst (ai_chat_response e md st) = Inr (RDict [(''error'', VStr (str ''AI response failed''))]))
   \<and> (ai_reply e = None \<longrightarrow>
        messages (snd (ai_chat_response e md st)) = messages st
        \<and> emitted (snd (ai_chat_response e md st)) = emitted st)
   \<and> (messages (snd (ai_chat_response e md st)) = messages st
        \<or> (\<exists>r. ai_reply e = Some r
              \<and> messages (snd (ai_chat_response e md st)) =
                  messages st @ [prepare_for_mongo (message_to_dict (Message e (ai_draft r md)))]))"
proof (cases "ai_reply e")
  case None
  then show ?thesis
    by (simp add: ai_chat_response_ai_fails returned_simps ai_failed_def)
next
  case (Some r)
  then show ?thesis
    by (cases "insert_ok e"; cases "update_ok e"; cases "emit_ok e")
       (simp_all add: ai_chat_response_insert_fails ai_chat_response_update_fails
          ai_chat_response_emit_fails ai_chat_response_accepted returned_simps ai_failed_def)
qed

theorem ai_failure_response_shape_witness:
  "fst (ai_chat_response (env_ok\<lparr>ai_reply := None\<rparr>) msg_hello state_c1) =
     Inr (RDict [(''error'', VStr (str ''AI response failed''))])
   \<and> messages (snd (ai_chat_response (env_ok\<lparr>ai_reply := None\<rparr>) msg_hello state_c1)) = messages state_c1
   \<and> emitted (snd (ai_chat_response (env_ok\<lparr>ai_reply := None\<rparr>) msg_hello state_c1)) = emitted state_c1
   \<and> fst (ai_chat_response (env_ok\<lparr>emit_ok := False\<rparr>) msg_hello state_c1) =
     Inr (RDict [(''error'', VStr (str ''AI response failed''))])"
  using ai_failure_response_shape [of "env_ok\<lparr>ai_reply := None\<rparr>" msg_hello state_c1]
        ai_failure_response_shape [of "env_ok\<lparr>emit_ok := False\<rparr>" msg_hello state_c1]
  by (simp add: env_ok_def)

text \<open>
  C8. A \<open>typing_start\<close> event from session \<open>A\<close> whose \<open>conversation_id\<close> is a
  non-empty value \<open>R\<close> (the handler's \<open>if conversation_id:\<close>), with the emit returning:
  one \<open>user_typing\<close> event carrying the event's \<open>user_id\<close> and \<open>username\<close> and
  \<open>typing = True\<close> is emitted to room \<open>R\<close>; every member of \<open>R\<close> other than
  \<open>A\<close> receives it, \<open>A\<close> and the sessions outside \<open>R\<close> receive nothing, and
  the database and the rooms are unchanged.
\<close>

theorem typing_start_fanout:
  assumes "dict_get data ''conversation_id'' = R" and "truthy R"
  shows "\<exists>st'. typing_start True A data st = Inr st'
    \<and> users st' = users st \<and> conversations st' = conversations st
    \<and> messages st' = messages st \<and> rooms st' = rooms st
    \<and> emitted st' = emitted st @
         [\<lparr>event = ''user_typing'',
           payload = [(''user_id'', dict_get data ''user_id''),
                      (''username'', dict_get data ''username''),
                      (''typing'', VBool True)],
           room = R, skip_sid = Some A\<rparr>]
    \<and> (\<forall>B \<in> rooms st R. B \<noteq> A \<longrightarrow>
          inbox st' B = inbox st B @
            [(''user_typing'', [(''user_id'', dict_get data ''user_id''),
                                (''username'', dict_get data ''username''),
                                (''typing'', VBool True)])])
    \<and> inbox st' A = inbox st A
    \<and> (\<forall>B. B \<notin> rooms st R \<longrightarrow> inbox st' B = inbox st B)"
  using assms
  by (auto simp add: typing_start_def emit_def recipients_def Let_def)

theorem typing_start_fanout_witness:
  "truthy (dict_get typing_data ''conversation_id'')
   \<and> (\<exists>st'. typing_start True (str ''s1'') typing_data state_c1 = Inr st'
        \<and> messages st' = [] \<and> users st' = []
        \<and> conversations st' = conversations state_c1
        \<and> str ''s2'' \<in> rooms state_c1 (VStr (str ''c1''))
        \<and> inbox st' (str ''s2'') =
            [(''user_typing'', [(''user_id'', VStr (str ''u1'')), (''username'', VStr (str ''ann'')),
                                (''typing'', VBool True)])]
        \<and> inbox st' (str ''s1'') = []
        \<and> str ''s3'' \<notin> rooms state_c1 (VStr (str ''c1''))
        \<and> inbox st' (str ''s3'') = [])"
proof -
  have R: "dict_get typing_data ''conversation_id'' = VStr (str ''c1'')"
    by (simp add: typing_data_def dict_get_def)
  have t: "truthy (VStr (str ''c1''))"
    by (simp add: str_Nil_iff)
  have g: "dict_get typing_data ''user_id'' = VStr (str ''u1'')"
          "dict_get typing_data ''username'' = VStr (str ''ann'')"
    by (simp_all add: typing_data_def dict_get_def)
  have ne: "str ''s2'' \<noteq> str ''s1''" "str ''s3'' \<noteq> str ''s1''" "str ''s3'' \<noteq> str ''s2''"
    by (simp_all add: str_eq_iff)
  show ?thesis
    using typing_start_fanout [OF R t, of "str ''s1''" state_c1] ne
    by (auto simp add: R g str_Nil_iff state_c1_fields state_c1_rooms)
qed

text \<open>
  C9. On the AI path, when the insert has succeeded and the summary update or the emit
  then raises, the handler returns the error dictionary although the AI message is in
  the stored messages.
\<close>

theorem ai_error_after_persist:
  "ai_reply e = Some r \<Longrightarrow> insert_ok e \<Longrightarrow> \<not> update_ok e \<or> \<not> emit_ok e \<Longrightarrow>
   fst (ai_chat_response e md st) = Inr (RDict [(''error'', VStr (str ''AI response failed''))])
   \<and> messages (snd (ai_chat_response e md st)) =
       messages st @ [prepare_for_mongo (message_to_dict (Message e (ai_draft r md)))]"
  by (cases "update_ok e"; cases "emit_ok e")
     (simp_all add: ai_chat_response_update_fails ai_chat_response_emit_fails ai_failed_def)

theorem ai_error_after_persist_witness:
  "fst (ai_chat_response (env_ok\<lparr>emit_ok := False\<rparr>) msg_hello state_c1) =
     Inr (RDict [(''error'', VStr (str ''AI response failed''))])
   \<and> messages (snd (ai_chat_response (env_ok\<lparr>emit_ok := False\<rparr>) msg_hello state_c1)) =
       [[(''id'', VStr (str ''m1'')), (''sender_id'', VStr (str ''ai-assistant'')),
         (''sender_username'', VStr (str ''AI Assistant'')), (''content'', VStr (str ''hi'')),
         (''message_type'', VStr (str ''ai_response'')), (''timestamp'', VIso 10),
         (''conversation_id'', VStr (str ''c1''))]]
   \<and> fst (ai_chat_response (env_ok\<lparr>update_ok := False\<rparr>) msg_hello state_c1) =
     Inr (RDict [(''error'', VStr (str ''AI response failed''))])
   \<and> messages (snd (ai_chat_response (env_ok\<lparr>update_ok := False\<rparr>) msg_hello state_c1)) =
       [[(''id'', VStr (str ''m1'')), (''sender_id'', VStr (str ''ai-assistant'')),
         (''sender_username'', VStr (str ''AI Assistant'')), (''content'', VStr (str ''hi'')),
         (''message_type'', VStr (str ''ai_response'')), (''timestamp'', VIso 10),
         (''conversation_id'', VStr (str ''c1''))]]"
  using ai_error_after_persist [of "env_ok\<lparr>emit_ok := False\<rparr>" "str ''hi''" msg_hello state_c1]
        ai_error_after_persist [of "env_ok\<lparr>update_ok := False\<rparr>" "str ''hi''" msg_hello state_c1]
  by (simp add: env_ok_def msg_hello_def state_c1_fields prepare_for_mongo_def
        message_to_dict_def Message_def ai_draft_def)

text \<open>
  C10. When the update and the emit return, \<open>update_user_status\<close> returns
  \<open>{"success": True}\<close> whether or not a user has the given id, and emits
  \<open>user_status_changed\<close> with that id and status to the room of all connected sessions,
  each of which receives it. When no user has the id, the users are left unchanged.
\<close>

theorem status_update_unknown_user:
  assumes "update_ok e" and "emit_ok e"
  shows "fst (update_user_status e uid s st) = Inr [(''success'', VBool True)]
    \<and> emitted (snd (update_user_status e uid s st)) =
        emitted st @ [\<lparr>event = ''user_status_changed'',
                        payload = [(''user_id'', VStr uid), (''status'', VStr s)],
                        room = VNone, skip_sid = None\<rparr>]
    \<and> (\<forall>c. inbox (snd (update_user_status e uid s st)) c =
            (if c \<in> rooms st VNone
             then inbox st c @ [(''user_status_changed'', [(''user_id'', VStr uid), (''status'', VStr s)])]
             else inbox st c))
    \<and> (find_one (users st) [(''id'', VStr uid)] = None \<longrightarrow>
         users (snd (update_user_status e uid s st)) = users st)"
  using assms
  by (simp add: update_user_status_def emit_def recipients_def Let_def update_one_no_match)

theorem status_update_unknown_user_witness:
  "find_one (users state_c1) [(''id'', VStr (str ''ghost''))] = None
   \<and> fst (update_user_status env_ok (str ''ghost'') (str ''online'') state_c1) =
       Inr [(''success'', VBool True)]
   \<and> users (snd (update_user_status env_ok (str ''ghost'') (str ''online'') state_c1)) = []
   \<and> inbox (snd (update_user_status env_ok (str ''ghost'') (str ''online'') state_c1)) (str ''s1'') =
       [(''user_status_changed'', [(''user_id'', VStr (str ''ghost'')), (''status'', VStr (str ''online''))])]"
proof -
  have ok: "update_ok env_ok" "emit_ok env_ok"
    by (simp_all add: env_ok_def)
  have none: "find_one (users state_c1) [(''id'', VStr (str ''ghost''))] = None"
    by (simp add: state_c1_fields find_one_def)
  show ?thesis
    using status_update_unknown_user [OF ok, of "str ''ghost''" "str ''online''" state_c1] none
    by (simp add: state_c1_fields state_c1_rooms)
qed

end
